theory Spec2Isabelle
  imports Main "HOL-Library.Sublist"
begin

section \<open>Shared vocabulary of the components\<close>

text \<open>
  Every component talks to the backend client through \<^verbatim>\<open>await\<close>. An awaited call
  either resolves to a value or throws; the thrown case is what the \<^verbatim>\<open>catch\<close> blocks of
  the handlers see.
\<close>

datatype 'a awaited = Resolved 'a | Rejected string

text \<open>The user object of the auth provider; the components read \<^verbatim>\<open>user.id\<close> and \<^verbatim>\<open>user.email\<close>.\<close>

datatype user = User (uid: string) (email: string)

text \<open>The error object of a data call; the components read \<^verbatim>\<open>error.code\<close> and \<^verbatim>\<open>error.message\<close>.\<close>

datatype pg_error = PgError (code: string) (message: string)

text \<open>
  A toast is shown with a title, a description and either \<^verbatim>\<open>variant: "destructive"\<close> or
  a success class name.
\<close>

datatype toast_style = Destructive | Success

datatype toast = Toast (title: string) (description: string) (style: toast_style)

text \<open>
  JavaScript's \<^verbatim>\<open>s || d\<close> on a string: the empty string is the only falsy string.
  \<^verbatim>\<open>s || null\<close> is \<open>or_null\<close>.
\<close>

definition or_else :: "string \<Rightarrow> string \<Rightarrow> string" where
  "or_else s d = (if s = [] then d else s)"

definition or_null :: "string \<Rightarrow> string option" where
  "or_null s = (if s = [] then None else Some s)"

text \<open>
  A string is the list of its UTF-16 code units, and a \<^typ>\<open>char\<close> holds a code unit
  below 256: the model covers Latin-1 text, and a string with a code unit from 256 on is
  outside its types. On this range \<^verbatim>\<open>String.prototype.toLowerCase\<close> works unit by
  unit: the capitals A..Z (65..90) and the accented capitals 192..222, the multiplication
  sign 215 apart, move up by 32; every other unit stays.
\<close>

definition toLowerCase_char :: "char \<Rightarrow> char" where
  "toLowerCase_char c =
     (let n = (of_char c :: nat)
      in if (65 \<le> n \<and> n \<le> 90) \<or> (192 \<le> n \<and> n \<le> 222 \<and> n \<noteq> 215) then char_of (n + 32)
         else c)"

definition toLowerCase :: "string \<Rightarrow> string" where
  "toLowerCase s = map toLowerCase_char s"

section \<open>TripForm.tsx: the trip submission flow\<close>

text \<open>The form state \<^verbatim>\<open>Trip\<close> of TripForm.tsx: seven strings, all empty at the start.\<close>

record trip_form =
  trip_number :: string
  origin :: string
  destination :: string
  mode :: string
  start_time :: string
  end_time :: string
  companions :: string

definition empty_form :: trip_form where
  "empty_form = \<lparr>trip_number = [], origin = [], destination = [], mode = [],
     start_time = [], end_time = [], companions = []\<rparr>"

definition transportModes :: "string list" where
  "transportModes = [''Walking'', ''Bicycle'', ''Motorcycle'', ''Car'', ''Bus'', ''Train'',
     ''Metro'', ''Auto Rickshaw'', ''Taxi'', ''Other'']"

text \<open>The values of the mode select: \<^verbatim>\<open>value={mode.toLowerCase()}\<close> for each entry.\<close>

definition selectItemValues :: "string list" where
  "selectItemValues = map toLowerCase transportModes"

datatype field = F_trip_number | F_origin | F_destination | F_mode | F_start_time
  | F_end_time | F_companions

text \<open>\<^verbatim>\<open>handleInputChange\<close>: \<^verbatim>\<open>setTrip(prev => ({ ...prev, [field]: value }))\<close>.\<close>

fun handleInputChange :: "field \<Rightarrow> string \<Rightarrow> trip_form \<Rightarrow> trip_form" where
  "handleInputChange F_trip_number v t = t\<lparr>trip_number := v\<rparr>"
| "handleInputChange F_origin v t = t\<lparr>origin := v\<rparr>"
| "handleInputChange F_destination v t = t\<lparr>destination := v\<rparr>"
| "handleInputChange F_mode v t = t\<lparr>mode := v\<rparr>"
| "handleInputChange F_start_time v t = t\<lparr>start_time := v\<rparr>"
| "handleInputChange F_end_time v t = t\<lparr>end_time := v\<rparr>"
| "handleInputChange F_companions v t = t\<lparr>companions := v\<rparr>"

text \<open>
  The mount effect: the geolocation callback fills the origin only when it is still empty
  (\<^verbatim>\<open>prev.origin || `${lat}, ${lon}`\<close>), and the start time is filled the same way. The
  texts themselves (the formatted coordinates, the clock) are inputs of the model.
\<close>

definition onPosition :: "string \<Rightarrow> trip_form \<Rightarrow> trip_form" where
  "onPosition coords t = t\<lparr>origin := or_else (origin t) coords\<rparr>"

definition autoStartTime :: "string \<Rightarrow> trip_form \<Rightarrow> trip_form" where
  "autoStartTime now t = t\<lparr>start_time := or_else (start_time t) now\<rparr>"

text \<open>The row handed to \<^verbatim>\<open>insert\<close>: \<^verbatim>\<open>tripData\<close>, optional fields sent as null.\<close>

record trip_data =
  user_id :: string
  trip_number :: "string option"
  origin :: string
  destination :: string
  mode :: string
  start_time :: "string option"
  end_time :: "string option"
  companions :: "string option"

text \<open>The row handed to \<^verbatim>\<open>upsert\<close> by the consent page: \<^verbatim>\<open>{ id, consent, updated_at }\<close>.\<close>

datatype profile_row =
  Profile (profile_id: string) (profile_consent: bool) (profile_updated_at: string)

text \<open>
  What a run of a handler does besides updating its component's state: the calls on the
  backend client, the toasts, the loading flag, the console and the parent's callbacks,
  in the order the handler makes them.
\<close>

datatype effect =
    ShowToast toast
  | SetIsLoading bool
  | AuthGetUser
  | InsertTrip trip_data
  | SelectTrips "string option"
  | UpsertProfile profile_row
  | ConsoleError
  | OnTripSaved
  | OnConsentGiven

fun is_network_call :: "effect \<Rightarrow> bool" where
  "is_network_call AuthGetUser = True"
| "is_network_call (InsertTrip d) = True"
| "is_network_call (SelectTrips u) = True"
| "is_network_call (UpsertProfile r) = True"
| "is_network_call e = False"

definition missing_information :: toast where
  "missing_information = Toast ''Missing Information''
     ''Please fill in origin, destination, and mode of transport.'' Destructive"

definition authentication_error :: toast where
  "authentication_error = Toast ''Authentication Error'' ''Please login to save trips.'' Destructive"

definition save_error :: "pg_error \<Rightarrow> toast" where
  "save_error e = Toast ''Error'' (or_else (message e) ''Failed to save trip data.'') Destructive"

definition trip_saved :: toast where
  "trip_saved = Toast ''Trip Saved Successfully''
     ''Your trip data has been recorded for transportation research.'' Success"

definition unexpected_error :: toast where
  "unexpected_error = Toast ''Error'' ''An unexpected error occurred. Please try again.'' Destructive"

definition tripData :: "user \<Rightarrow> trip_form \<Rightarrow> trip_data" where
  "tripData u t = \<lparr>user_id = uid u,
     trip_number = or_null (trip_form.trip_number t),
     origin = trip_form.origin t,
     destination = trip_form.destination t,
     mode = trip_form.mode t,
     start_time = or_null (trip_form.start_time t),
     end_time = or_null (trip_form.end_time t),
     companions = or_null (trip_form.companions t)\<rparr>"

text \<open>
  \<^verbatim>\<open>handleSubmit\<close> of TripForm.tsx. \<open>getUser\<close> is what \<^verbatim>\<open>supabase.auth.getUser()\<close> gives
  (the user or null, or a throw), \<open>insert_trips\<close> what \<^verbatim>\<open>from('trips').insert([tripData])\<close>
  gives (its \<^verbatim>\<open>error\<close>, null on success, or a throw). The validation returns before the
  \<^verbatim>\<open>try\<close>; every path through the \<^verbatim>\<open>try\<close> ends with the \<^verbatim>\<open>finally\<close> block's
  \<^verbatim>\<open>setIsLoading(false)\<close>. The result is the new form state and the effects.
\<close>

definition TripForm_handleSubmit ::
  "user option awaited \<Rightarrow> (trip_data \<Rightarrow> pg_error option awaited) \<Rightarrow> trip_form
     \<Rightarrow> trip_form \<times> effect list" where
  "TripForm_handleSubmit getUser insert_trips t =
     (if trip_form.origin t = [] \<or> trip_form.destination t = [] \<or> trip_form.mode t = []
      then (t, [ShowToast missing_information])
      else
        (case getUser of
           Rejected x \<Rightarrow>
             (t, [SetIsLoading True, AuthGetUser, ConsoleError, ShowToast unexpected_error,
                  SetIsLoading False])
         | Resolved None \<Rightarrow>
             (t, [SetIsLoading True, AuthGetUser, ShowToast authentication_error,
                  SetIsLoading False])
         | Resolved (Some u) \<Rightarrow>
             (case insert_trips (tripData u t) of
                Rejected x \<Rightarrow>
                  (t, [SetIsLoading True, AuthGetUser, InsertTrip (tripData u t), ConsoleError,
                       ShowToast unexpected_error, SetIsLoading False])
              | Resolved (Some e) \<Rightarrow>
                  (t, [SetIsLoading True, AuthGetUser, InsertTrip (tripData u t), ConsoleError,
                       ShowToast (save_error e), SetIsLoading False])
              | Resolved None \<Rightarrow>
                  (empty_form, [SetIsLoading True, AuthGetUser, InsertTrip (tripData u t),
                       ShowToast trip_saved, OnTripSaved, SetIsLoading False]))))"

text \<open>
  The form states the user interface can produce: typing sets a text field to anything,
  the select sets the mode to the value of one of its items, the mount effect fills origin
  and start time, and a submission leaves the form as the handler returns it.
\<close>

inductive reachable_form :: "trip_form \<Rightarrow> bool" where
  initial: "reachable_form empty_form"
| typed: "reachable_form t \<Longrightarrow> f \<noteq> F_mode \<Longrightarrow> reachable_form (handleInputChange f v t)"
| selected: "reachable_form t \<Longrightarrow> v \<in> set selectItemValues \<Longrightarrow>
     reachable_form (handleInputChange F_mode v t)"
| located: "reachable_form t \<Longrightarrow> reachable_form (onPosition coords t)"
| clocked: "reachable_form t \<Longrightarrow> reachable_form (autoStartTime now t)"
| submitted: "reachable_form t \<Longrightarrow> reachable_form (fst (TripForm_handleSubmit getUser insert_trips t))"

section \<open>The trip listings: Dashboard (user variant) and ScientistDashboard (research variant)\<close>

text \<open>
  Modelled from the spec: the shape of a data call's answer, declared by the backend
  client's library and not by this repository (section 6: \<^verbatim>\<open>select(...) \<rightarrow> rows|error\<close>).
  The answer carries either an error (and then no data) or the data, which may be null.
  The handlers destructure it as \<^verbatim>\<open>{ data, error }\<close>.
\<close>

datatype 'r pg_response = PgFailure pg_error | PgSuccess "'r option"

fun data_of :: "'r pg_response \<Rightarrow> 'r option" where
  "data_of (PgFailure e) = None"
| "data_of (PgSuccess d) = d"

fun error_of :: "'r pg_response \<Rightarrow> pg_error option" where
  "error_of (PgFailure e) = Some e"
| "error_of (PgSuccess d) = None"

text \<open>\<^verbatim>\<open>data || []\<close>: an array, even an empty one, is truthy; only null gives \<^verbatim>\<open>[]\<close>.\<close>

fun or_empty :: "'t list option \<Rightarrow> 't list" where
  "or_empty None = []"
| "or_empty (Some ts) = ts"

text \<open>\<^verbatim>\<open>error && error.code !== '42P01'\<close>.\<close>

fun is_reported :: "pg_error option \<Rightarrow> bool" where
  "is_reported None = False"
| "is_reported (Some e) = (code e \<noteq> ''42P01'')"

definition user_load_error :: "pg_error \<Rightarrow> toast" where
  "user_load_error e = Toast ''Data Load Error''
     (if message e \<noteq> [] then ''Could not load your trips: '' @ message e
      else ''Could not load your trips. Using offline data.'') Destructive"

definition all_load_error :: toast where
  "all_load_error = Toast ''Data Load Error''
     ''Could not load trip data. Please ensure database is set up.'' Destructive"

text \<open>
  \<^verbatim>\<open>fetchTrips\<close> of the user dashboard. The state it owns is the trip list; \<open>select\<close> is
  the answer of the query for the rows of the given user id.
\<close>

definition fetchTrips ::
  "user option awaited \<Rightarrow> (string \<Rightarrow> 't list pg_response awaited) \<Rightarrow> 't list
     \<Rightarrow> 't list \<times> effect list" where
  "fetchTrips getUser select trips =
     (case getUser of
        Rejected x \<Rightarrow>
          (trips, [AuthGetUser, ConsoleError, ShowToast (Toast ''Unexpected Error'' x Destructive),
                   SetIsLoading False])
      | Resolved None \<Rightarrow> (trips, [AuthGetUser, SetIsLoading False])
      | Resolved (Some u) \<Rightarrow>
          (case select (uid u) of
             Rejected x \<Rightarrow>
               (trips, [AuthGetUser, SelectTrips (Some (uid u)), ConsoleError,
                        ShowToast (Toast ''Unexpected Error'' x Destructive), SetIsLoading False])
           | Resolved r \<Rightarrow>
               (if is_reported (error_of r)
                then (trips, [AuthGetUser, SelectTrips (Some (uid u)), ConsoleError,
                        ShowToast (user_load_error (the (error_of r))), SetIsLoading False])
                else (or_empty (data_of r),
                       [AuthGetUser, SelectTrips (Some (uid u)), SetIsLoading False]))))"

text \<open>\<^verbatim>\<open>fetchAllTrips\<close> of the research dashboard: no user lookup, no user filter.\<close>

definition fetchAllTrips ::
  "'t list pg_response awaited \<Rightarrow> 't list \<Rightarrow> 't list \<times> effect list" where
  "fetchAllTrips select trips =
     (case select of
        Rejected x \<Rightarrow> (trips, [SelectTrips None, ConsoleError, SetIsLoading False])
      | Resolved r \<Rightarrow>
          (if is_reported (error_of r)
           then (trips, [SelectTrips None, ConsoleError, ShowToast all_load_error,
                         SetIsLoading False])
           else (or_empty (data_of r), [SelectTrips None, SetIsLoading False])))"

fun is_toast :: "effect \<Rightarrow> bool" where
  "is_toast (ShowToast t) = True"
| "is_toast e = False"

section \<open>ConsentPage.tsx: the consent flow\<close>

definition please_login :: toast where
  "please_login = Toast ''Error'' ''Please login first.'' Destructive"

definition consent_recorded :: toast where
  "consent_recorded = Toast ''Consent Recorded''
     ''Thank you for participating in transportation research!'' Success"

text \<open>
  \<^verbatim>\<open>handleSubmit\<close> of ConsentPage.tsx. \<open>consent\<close> is the checkbox state, \<open>now\<close> the text
  of \<^verbatim>\<open>new Date().toISOString()\<close>, \<open>upsert\<close> what \<^verbatim>\<open>from('profiles').upsert(row)\<close> gives
  (its \<^verbatim>\<open>error\<close>, or a throw). The \<^verbatim>\<open>catch\<close> block calls \<^verbatim>\<open>onConsentGiven\<close> as well.
\<close>

definition ConsentPage_handleSubmit ::
  "user option awaited \<Rightarrow> (profile_row \<Rightarrow> pg_error option awaited) \<Rightarrow> string \<Rightarrow> bool
     \<Rightarrow> effect list" where
  "ConsentPage_handleSubmit getUser upsert now consent =
     (if \<not> consent then []
      else
        (case getUser of
           Rejected x \<Rightarrow>
             [SetIsLoading True, AuthGetUser, ConsoleError, OnConsentGiven, SetIsLoading False]
         | Resolved None \<Rightarrow>
             [SetIsLoading True, AuthGetUser, ShowToast please_login, SetIsLoading False]
         | Resolved (Some u) \<Rightarrow>
             (case upsert (Profile (uid u) True now) of
                Rejected x \<Rightarrow>
                  [SetIsLoading True, AuthGetUser, UpsertProfile (Profile (uid u) True now),
                   ConsoleError, OnConsentGiven, SetIsLoading False]
              | Resolved err \<Rightarrow>
                  [SetIsLoading True, AuthGetUser, UpsertProfile (Profile (uid u) True now)]
                  @ (if is_reported err then [ConsoleError] else [])
                  @ [ShowToast consent_recorded, OnConsentGiven, SetIsLoading False])))"

text \<open>
  Modelled from the spec: the backend's \<^verbatim>\<open>profiles\<close> table and what an upsert does to
  it (sections 3 and 6: one row per user id, consent flag false by default,
  \<^verbatim>\<open>upsert(table, row) \<rightarrow> row|error\<close>). The backend is an external service; which of the
  three outcomes a call has is an input of the model. An upsert that is applied replaces the
  row of its id; one that the backend refuses with an error, or that throws, leaves the table
  as it was.
\<close>

type_synonym profiles = "string \<Rightarrow> profile_row option"

datatype upsert_outcome = Applied | Refused pg_error | Thrown string

fun upsert_reply :: "upsert_outcome \<Rightarrow> pg_error option awaited" where
  "upsert_reply Applied = Resolved None"
| "upsert_reply (Refused e) = Resolved (Some e)"
| "upsert_reply (Thrown x) = Rejected x"

fun upsert_table :: "upsert_outcome \<Rightarrow> profile_row \<Rightarrow> profiles \<Rightarrow> profiles" where
  "upsert_table Applied row tbl = tbl(profile_id row \<mapsto> row)"
| "upsert_table (Refused e) row tbl = tbl"
| "upsert_table (Thrown x) row tbl = tbl"

definition consent_flag :: "profiles \<Rightarrow> user \<Rightarrow> bool" where
  "consent_flag tbl u = (case tbl (uid u) of None \<Rightarrow> False | Some r \<Rightarrow> profile_consent r)"

fun backend_effect :: "upsert_outcome \<Rightarrow> effect \<Rightarrow> profiles \<Rightarrow> profiles" where
  "backend_effect oc (UpsertProfile row) tbl = upsert_table oc row tbl"
| "backend_effect oc e tbl = tbl"

text \<open>
  One consent submission against the backend: the handler runs with the session's user and
  the backend's reply, and the table changes by the upserts the handler issued.
\<close>

definition submit_consent ::
  "user option \<Rightarrow> upsert_outcome \<Rightarrow> string \<Rightarrow> bool \<Rightarrow> profiles \<Rightarrow> profiles \<times> effect list" where
  "submit_consent session oc now consent tbl =
     (let effects = ConsentPage_handleSubmit (Resolved session) (\<lambda>row. upsert_reply oc) now consent
      in (fold (backend_effect oc) effects tbl, effects))"

section \<open>Index: the session, consent and view state\<close>

datatype view = UserView | ScientistView

datatype session = Session (session_user: user)

record index_state =
  user :: "user option"
  hasConsented :: bool
  currentView :: view
  isLoading :: bool

definition initial_index :: index_state where
  "initial_index = \<lparr>user = None, hasConsented = False, currentView = UserView, isLoading = True\<rparr>"




definition onConsentGiven :: "index_state \<Rightarrow> index_state" where
  "onConsentGiven st = st\<lparr>hasConsented := True\<rparr>"




text \<open>
  \<^verbatim>\<open>Index\<close> hands \<^verbatim>\<open>() => setHasConsented(true)\<close> to the consent page as
  \<^verbatim>\<open>onConsentGiven\<close>: of a handler's effects, only that callback touches the state of
  \<^verbatim>\<open>Index\<close>.
\<close>

fun index_effect :: "effect \<Rightarrow> index_state \<Rightarrow> index_state" where
  "index_effect OnConsentGiven st = onConsentGiven st"
| "index_effect e st = st"



section \<open>ScientistDashboard.tsx: filter, statistics and export\<close>

text \<open>
  The \<^verbatim>\<open>Trip\<close> of the research dashboard. \<^verbatim>\<open>id\<close> is a number (here an integer, as the
  backend assigns it); the fields marked \<^verbatim>\<open>?\<close> may be absent.
\<close>

record trip =
  trip_id :: int
  user_id :: string
  trip_number :: "string option"
  origin :: string
  destination :: string
  mode :: string
  start_time :: "string option"
  end_time :: "string option"
  companions :: "string option"
  created_at :: "string option"




text \<open>Decimal text of a number, as template strings and \<^verbatim>\<open>join\<close> produce it.\<close>

definition digit :: "nat \<Rightarrow> char" where
  "digit d = char_of (48 + d)"

fun show_nat :: "nat \<Rightarrow> string" where
  "show_nat n = (if n < 10 then [digit n] else show_nat (n div 10) @ [digit (n mod 10)])"

declare show_nat.simps [simp del]

definition show_int :: "int \<Rightarrow> string" where
  "show_int i = (if i < 0 then CHR ''-'' # show_nat (nat (- i)) else show_nat (nat i))"























text \<open>\<^verbatim>\<open>Array.prototype.join\<close> on strings.\<close>

fun join :: "string \<Rightarrow> string list \<Rightarrow> string" where
  "join sep [] = []"
| "join sep [x] = x"
| "join sep (x # y # ys) = x @ sep @ join sep (y # ys)"

definition newline :: char where
  "newline = CHR 0x0A"

definition comma :: char where
  "comma = CHR '',''"

text \<open>\<^verbatim>\<open>x || ""\<close> on an optional string.\<close>

fun opt_or_empty :: "string option \<Rightarrow> string" where
  "opt_or_empty None = []"
| "opt_or_empty (Some s) = s"

definition csv_header :: "string list" where
  "csv_header = [''Trip ID'', ''User ID'', ''Trip Number'', ''Origin'', ''Destination'', ''Mode'',
     ''Start Time'', ''End Time'', ''Companions'']"

definition csv_row :: "trip \<Rightarrow> string list" where
  "csv_row trip = [show_int (trip_id trip), user_id trip, opt_or_empty (trip_number trip),
     origin trip, destination trip, mode trip, opt_or_empty (start_time trip),
     opt_or_empty (end_time trip), opt_or_empty (companions trip)]"

definition csvContent :: "trip list \<Rightarrow> string" where
  "csvContent filteredTrips =
     join [newline] (map (join [comma]) (csv_header # map csv_row filteredTrips))"

text \<open>\<^verbatim>\<open>exportData\<close>: the name and the text of the file handed to the browser.\<close>

definition exportData :: "trip list \<Rightarrow> string \<times> string" where
  "exportData filteredTrips = (''natpac_trip_data.csv'', csvContent filteredTrips)"

text \<open>
  Reading the file back: the text is cut at every newline into lines, the first line is
  the header, and each line is cut at every comma into fields
  (\<^verbatim>\<open>text.split("\n").map(line => line.split(","))\<close>).
\<close>

fun split_on :: "char \<Rightarrow> string \<Rightarrow> string list" where
  "split_on c [] = [[]]"
| "split_on c (x # xs) =
     (if x = c then [] # split_on c xs
      else (case split_on c xs of [] \<Rightarrow> [[x]] | f # fs \<Rightarrow> (x # f) # fs))"

definition read_csv :: "string \<Rightarrow> string list list" where
  "read_csv text = map (split_on comma) (split_on newline text)"

definition data_rows :: "string \<Rightarrow> string list list" where
  "data_rows text = tl (read_csv text)"

text \<open>The free-text cells of a trip's row: everything but the id.\<close>

definition text_cells :: "trip \<Rightarrow> string list" where
  "text_cells trip = tl (csv_row trip)"




text \<open>
  The scenario of section 8: ten trips, three of which have "central" in origin or
  destination and mode "bus".
\<close>

definition scenario_trip :: "int \<Rightarrow> string \<Rightarrow> string \<Rightarrow> string \<Rightarrow> string \<Rightarrow> trip" where
  "scenario_trip i u a b m = \<lparr>trip_id = i, user_id = u, trip_number = None, origin = a,
     destination = b, mode = m, start_time = None, end_time = None, companions = None,
     created_at = None\<rparr>"

definition scenario_trips :: "trip list" where
  "scenario_trips =
     [scenario_trip 1 ''u1'' ''Central Station'' ''Airport'' ''bus'',
      scenario_trip 2 ''u2'' ''Harbour'' ''CENTRAL Park'' ''bus'',
      scenario_trip 3 ''u1'' ''central depot'' ''Mall'' ''bus'',
      scenario_trip 4 ''u3'' ''Central Station'' ''Mall'' ''car'',
      scenario_trip 5 ''u2'' ''Harbour'' ''Mall'' ''bus'',
      scenario_trip 6 ''u4'' ''Zoo'' ''Central Square'' ''train'',
      scenario_trip 7 ''u4'' ''Zoo'' ''Mall'' ''walking'',
      scenario_trip 8 ''u1'' ''Home'' ''Office'' ''bus'',
      scenario_trip 9 ''u5'' ''Decentralised Hub'' ''Office'' ''metro'',
      scenario_trip 10 ''u5'' ''Home'' ''School'' ''bicycle'']"

section \<open>Validation of a submission\<close>

text \<open>
  C1. A submission whose origin, destination or mode is empty makes no network call
  (neither the user lookup nor the insert), shows the validation notice and nothing else,
  and returns the form with all seven fields as they were.
\<close>

theorem C1_validation_rejects:
  assumes "trip_form.origin t = [] \<or> trip_form.destination t = [] \<or> trip_form.mode t = []"
  shows "fst (TripForm_handleSubmit getUser insert_trips t) = t
       \<and> filter is_network_call (snd (TripForm_handleSubmit getUser insert_trips t)) = []
       \<and> snd (TripForm_handleSubmit getUser insert_trips t) = [ShowToast missing_information]"
  using assms by (simp add: TripForm_handleSubmit_def)

theorem C1_validation_rejects_witness:
  "fst (TripForm_handleSubmit (Resolved (Some (User ''u1'' ''a@b.c''))) (\<lambda>d. Resolved None)
          (empty_form\<lparr>trip_form.origin := ''Home''\<rparr>))
     = empty_form\<lparr>trip_form.origin := ''Home''\<rparr>
   \<and> filter is_network_call (snd (TripForm_handleSubmit (Resolved (Some (User ''u1'' ''a@b.c'')))
          (\<lambda>d. Resolved None) (empty_form\<lparr>trip_form.origin := ''Home''\<rparr>))) = []
   \<and> snd (TripForm_handleSubmit (Resolved (Some (User ''u1'' ''a@b.c''))) (\<lambda>d. Resolved None)
          (empty_form\<lparr>trip_form.origin := ''Home''\<rparr>))
     = [ShowToast missing_information]"
  using C1_validation_rejects [of "empty_form\<lparr>trip_form.origin := ''Home''\<rparr>"
      "Resolved (Some (User ''u1'' ''a@b.c''))" "\<lambda>d. Resolved None"]
  by (simp add: empty_form_def)

section \<open>Outcome of a submission\<close>

text \<open>
  C7. A submission whose insert call succeeds resets the form to its empty defaults and
  calls the parent's refresh callback exactly once. A submission whose insert returns an
  error shows one notice, carrying the backend's error message (the fixed text
  "Failed to save trip data." stands in for an empty message), keeps the form as it was and
  does not call the refresh callback. "The insert call" is the \<open>InsertTrip\<close> effect of the
  run, so the statement covers exactly the runs that reach the insert.
\<close>

theorem C7_submission_outcome:
  "(InsertTrip d \<in> set (snd (TripForm_handleSubmit getUser insert_trips t))
      \<and> insert_trips d = Resolved None
    \<longrightarrow> fst (TripForm_handleSubmit getUser insert_trips t) = empty_form
      \<and> length (filter (\<lambda>e. e = OnTripSaved) (snd (TripForm_handleSubmit getUser insert_trips t))) = 1)
   \<and> (InsertTrip d \<in> set (snd (TripForm_handleSubmit getUser insert_trips t))
      \<and> insert_trips d = Resolved (Some e)
    \<longrightarrow> filter is_toast (snd (TripForm_handleSubmit getUser insert_trips t))
          = [ShowToast (Toast ''Error''
               (if message e = [] then ''Failed to save trip data.'' else message e) Destructive)]
      \<and> fst (TripForm_handleSubmit getUser insert_trips t) = t
      \<and> OnTripSaved \<notin> set (snd (TripForm_handleSubmit getUser insert_trips t)))"
  by (auto simp: TripForm_handleSubmit_def save_error_def or_else_def
      split: awaited.splits option.splits if_splits)

theorem C7_submission_outcome_witness:
  "fst (TripForm_handleSubmit (Resolved (Some (User ''u1'' ''a@b.c''))) (\<lambda>d. Resolved None)
          (empty_form\<lparr>trip_form.origin := ''A'', trip_form.destination := ''B'',
             trip_form.mode := ''bus''\<rparr>)) = empty_form
   \<and> length (filter (\<lambda>e. e = OnTripSaved)
        (snd (TripForm_handleSubmit (Resolved (Some (User ''u1'' ''a@b.c''))) (\<lambda>d. Resolved None)
          (empty_form\<lparr>trip_form.origin := ''A'', trip_form.destination := ''B'',
             trip_form.mode := ''bus''\<rparr>)))) = 1
   \<and> filter is_toast
        (snd (TripForm_handleSubmit (Resolved (Some (User ''u1'' ''a@b.c'')))
          (\<lambda>d. Resolved (Some (PgError ''23505'' ''duplicate key'')))
          (empty_form\<lparr>trip_form.origin := ''A'', trip_form.destination := ''B'',
             trip_form.mode := ''bus''\<rparr>)))
       = [ShowToast (Toast ''Error'' ''duplicate key'' Destructive)]
   \<and> fst (TripForm_handleSubmit (Resolved (Some (User ''u1'' ''a@b.c'')))
          (\<lambda>d. Resolved (Some (PgError ''23505'' ''duplicate key'')))
          (empty_form\<lparr>trip_form.origin := ''A'', trip_form.destination := ''B'',
             trip_form.mode := ''bus''\<rparr>))
       = empty_form\<lparr>trip_form.origin := ''A'', trip_form.destination := ''B'',
             trip_form.mode := ''bus''\<rparr>"
  using
    C7_submission_outcome [of
      "tripData (User ''u1'' ''a@b.c'') (empty_form\<lparr>trip_form.origin := ''A'',
         trip_form.destination := ''B'', trip_form.mode := ''bus''\<rparr>)"
      "Resolved (Some (User ''u1'' ''a@b.c''))" "\<lambda>d. Resolved None"
      "empty_form\<lparr>trip_form.origin := ''A'', trip_form.destination := ''B'',
         trip_form.mode := ''bus''\<rparr>"]
    C7_submission_outcome [of
      "tripData (User ''u1'' ''a@b.c'') (empty_form\<lparr>trip_form.origin := ''A'',
         trip_form.destination := ''B'', trip_form.mode := ''bus''\<rparr>)"
      "Resolved (Some (User ''u1'' ''a@b.c''))"
      "\<lambda>d. Resolved (Some (PgError ''23505'' ''duplicate key''))"
      "empty_form\<lparr>trip_form.origin := ''A'', trip_form.destination := ''B'',
         trip_form.mode := ''bus''\<rparr>"
      "PgError ''23505'' ''duplicate key''"]
  by (simp add: TripForm_handleSubmit_def empty_form_def)

section \<open>Errors of the trip listings\<close>

text \<open>
  C2. A listing fetch, in the user variant (with a user found, so that the query is made)
  and in the research variant, whose query comes back with an error: when the error code is
  '42P01' the trip list becomes empty and no notice is shown; with any other code exactly
  one notice is shown, the destructive "Data Load Error" toast of the variant (the user
  variant's carries the backend's message), and the trip list keeps the value it had.
\<close>

theorem C2_listing_errors:
  assumes "select (uid u) = Resolved (PgFailure e)"
  shows "(code e = ''42P01'' \<longrightarrow>
            fst (fetchTrips (Resolved (Some u)) select trips) = []
          \<and> filter is_toast (snd (fetchTrips (Resolved (Some u)) select trips)) = []
          \<and> fst (fetchAllTrips (Resolved (PgFailure e)) trips) = []
          \<and> filter is_toast (snd (fetchAllTrips (Resolved (PgFailure e)) trips)) = [])
       \<and> (code e \<noteq> ''42P01'' \<longrightarrow>
            fst (fetchTrips (Resolved (Some u)) select trips) = trips
          \<and> filter is_toast (snd (fetchTrips (Resolved (Some u)) select trips))
              = [ShowToast (Toast ''Data Load Error''
                   (if message e \<noteq> [] then ''Could not load your trips: '' @ message e
                    else ''Could not load your trips. Using offline data.'') Destructive)]
          \<and> fst (fetchAllTrips (Resolved (PgFailure e)) trips) = trips
          \<and> filter is_toast (snd (fetchAllTrips (Resolved (PgFailure e)) trips))
              = [ShowToast (Toast ''Data Load Error''
                   ''Could not load trip data. Please ensure database is set up.'' Destructive)])"
  using assms
  by (simp add: fetchTrips_def fetchAllTrips_def user_load_error_def all_load_error_def)

theorem C2_listing_errors_witness:
  "fst (fetchTrips (Resolved (Some (User ''u1'' ''a@b.c'')))
          (\<lambda>i. Resolved (PgFailure (PgError ''42P01'' ''relation does not exist''))) [1, 2 :: nat]) = []
   \<and> filter is_toast (snd (fetchTrips (Resolved (Some (User ''u1'' ''a@b.c'')))
          (\<lambda>i. Resolved (PgFailure (PgError ''42P01'' ''relation does not exist''))) [1, 2 :: nat])) = []
   \<and> fst (fetchAllTrips
          (Resolved (PgFailure (PgError ''42P01'' ''relation does not exist''))) [1, 2 :: nat]) = []
   \<and> filter is_toast (snd (fetchAllTrips
          (Resolved (PgFailure (PgError ''42P01'' ''relation does not exist''))) [1, 2 :: nat])) = []
   \<and> fst (fetchTrips (Resolved (Some (User ''u1'' ''a@b.c'')))
          (\<lambda>i. Resolved (PgFailure (PgError ''42501'' ''permission denied''))) [1, 2 :: nat]) = [1, 2]
   \<and> filter is_toast (snd (fetchTrips (Resolved (Some (User ''u1'' ''a@b.c'')))
          (\<lambda>i. Resolved (PgFailure (PgError ''42501'' ''permission denied''))) [1, 2 :: nat]))
       = [ShowToast (Toast ''Data Load Error''
            ''Could not load your trips: permission denied'' Destructive)]
   \<and> fst (fetchAllTrips
          (Resolved (PgFailure (PgError ''42501'' ''permission denied''))) [1, 2 :: nat]) = [1, 2]
   \<and> filter is_toast (snd (fetchAllTrips
          (Resolved (PgFailure (PgError ''42501'' ''permission denied''))) [1, 2 :: nat]))
       = [ShowToast (Toast ''Data Load Error''
            ''Could not load trip data. Please ensure database is set up.'' Destructive)]"
  using
    C2_listing_errors [of "\<lambda>i. Resolved (PgFailure (PgError ''42P01'' ''relation does not exist''))"
      "User ''u1'' ''a@b.c''" "PgError ''42P01'' ''relation does not exist''" "[1, 2 :: nat]"]
    C2_listing_errors [of "\<lambda>i. Resolved (PgFailure (PgError ''42501'' ''permission denied''))"
      "User ''u1'' ''a@b.c''" "PgError ''42501'' ''permission denied''" "[1, 2 :: nat]"]
  by simp

section \<open>The consent flow\<close>

text \<open>
  C9. When the consent submission runs (the checkbox is checked, which is what enables the
  button) and the user lookup finds no user, the flow shows the error notice, attempts no
  upsert, does not call the consent callback, and so leaves the state of \<^verbatim>\<open>Index\<close>,
  the consent flag included, as it was.
\<close>

theorem C9_no_session:
  assumes "consent"
  shows "ConsentPage_handleSubmit (Resolved None) upsert now consent
           = [SetIsLoading True, AuthGetUser, ShowToast please_login, SetIsLoading False]
       \<and> OnConsentGiven \<notin> set (ConsentPage_handleSubmit (Resolved None) upsert now consent)
       \<and> UpsertProfile row \<notin> set (ConsentPage_handleSubmit (Resolved None) upsert now consent)
       \<and> fold index_effect (ConsentPage_handleSubmit (Resolved None) upsert now consent) st = st"
  using assms by (simp add: ConsentPage_handleSubmit_def)

theorem C9_no_session_witness:
  "ConsentPage_handleSubmit (Resolved None) (\<lambda>row. Resolved None) ''2026-01-01T00:00:00.000Z'' True
     = [SetIsLoading True, AuthGetUser, ShowToast please_login, SetIsLoading False]
   \<and> OnConsentGiven \<notin> set (ConsentPage_handleSubmit (Resolved None) (\<lambda>row. Resolved None)
        ''2026-01-01T00:00:00.000Z'' True)
   \<and> hasConsented (fold index_effect (ConsentPage_handleSubmit (Resolved None) (\<lambda>row. Resolved None)
        ''2026-01-01T00:00:00.000Z'' True) initial_index) = False"
  using C9_no_session [of True "\<lambda>row. Resolved None" "''2026-01-01T00:00:00.000Z''"
      "Profile ''u1'' True ''2026-01-01T00:00:00.000Z''" initial_index]
  by (simp add: initial_index_def)

lemma consent_effects:
  "ConsentPage_handleSubmit (Resolved (Some u)) (\<lambda>row. upsert_reply oc) now True
     = [SetIsLoading True, AuthGetUser, UpsertProfile (Profile (uid u) True now)]
       @ (case oc of Applied \<Rightarrow> [ShowToast consent_recorded]
          | Refused e \<Rightarrow> (if code e \<noteq> ''42P01'' then [ConsoleError] else [])
              @ [ShowToast consent_recorded]
          | Thrown x \<Rightarrow> [ConsoleError])
       @ [OnConsentGiven, SetIsLoading False]"
  by (cases oc) (simp_all add: ConsentPage_handleSubmit_def)

lemma fold_backend_effect:
  "fold (backend_effect oc)
     (ConsentPage_handleSubmit (Resolved (Some u)) (\<lambda>row. upsert_reply oc) now True) tbl
     = upsert_table oc (Profile (uid u) True now) tbl"
  unfolding consent_effects by (cases oc) simp_all

lemma fold_index_effect:
  "fold index_effect
     (ConsentPage_handleSubmit (Resolved (Some u)) (\<lambda>row. upsert_reply oc) now True) st
     = onConsentGiven st"
  unfolding consent_effects by (cases oc) simp_all

lemma consent_flag_upsert:
  "consent_flag (upsert_table oc (Profile (uid u) True now) tbl) u
     = (consent_flag tbl u \<or> oc = Applied)"
  by (cases oc) (simp_all add: consent_flag_def)

text \<open>
  C3, as the code has it. A user with an active session submits the consent page twice in
  succession, the checkbox checked; each upsert may be applied, be refused with an error,
  or throw. On both runs the consent callback is called exactly once and the consent flag
  of \<^verbatim>\<open>Index\<close> is true afterwards, whatever the upserts did. The profile's consent
  flag is never cleared: after a run it is true exactly when it was true before the run or
  the run's upsert was applied. So when the first upsert is applied the flag is true after
  the first run and after the second, also when the second upsert fails.
\<close>

theorem C3_consent_idempotent:
  assumes "r1 = submit_consent (Some u) oc1 now1 True tbl"
      and "r2 = submit_consent (Some u) oc2 now2 True (fst r1)"
  shows "length (filter (\<lambda>e. e = OnConsentGiven) (snd r1)) = 1
       \<and> length (filter (\<lambda>e. e = OnConsentGiven) (snd r2)) = 1
       \<and> hasConsented (fold index_effect (snd r1) st)
       \<and> hasConsented (fold index_effect (snd r2) (fold index_effect (snd r1) st))
       \<and> consent_flag (fst r1) u = (consent_flag tbl u \<or> oc1 = Applied)
       \<and> consent_flag (fst r2) u = (consent_flag (fst r1) u \<or> oc2 = Applied)
       \<and> (oc1 = Applied \<longrightarrow> consent_flag (fst r1) u \<and> consent_flag (fst r2) u)"
proof -
  have e1: "snd r1 = ConsentPage_handleSubmit (Resolved (Some u)) (\<lambda>row. upsert_reply oc1) now1 True"
    and t1: "fst r1 = upsert_table oc1 (Profile (uid u) True now1) tbl"
    using assms(1) by (simp_all add: submit_consent_def Let_def fold_backend_effect)
  have e2: "snd r2 = ConsentPage_handleSubmit (Resolved (Some u)) (\<lambda>row. upsert_reply oc2) now2 True"
    and t2: "fst r2 = upsert_table oc2 (Profile (uid u) True now2) (fst r1)"
    using assms(2) by (simp_all add: submit_consent_def Let_def fold_backend_effect)
  have c1: "length (filter (\<lambda>e. e = OnConsentGiven) (snd r1)) = 1"
    unfolding e1 consent_effects by (cases oc1) simp_all
  have c2: "length (filter (\<lambda>e. e = OnConsentGiven) (snd r2)) = 1"
    unfolding e2 consent_effects by (cases oc2) simp_all
  have h1: "hasConsented (fold index_effect (snd r1) st)"
    unfolding e1 by (simp add: fold_index_effect onConsentGiven_def)
  have h2: "hasConsented (fold index_effect (snd r2) (fold index_effect (snd r1) st))"
    unfolding e2 by (simp add: fold_index_effect onConsentGiven_def)
  have f1: "consent_flag (fst r1) u = (consent_flag tbl u \<or> oc1 = Applied)"
    unfolding t1 by (rule consent_flag_upsert)
  have f2: "consent_flag (fst r2) u = (consent_flag (fst r1) u \<or> oc2 = Applied)"
    unfolding t2 by (rule consent_flag_upsert)
  from c1 c2 h1 h2 f1 f2 show ?thesis by simp
qed

theorem C3_consent_idempotent_witness:
  "consent_flag (fst (submit_consent (Some (User ''u1'' ''a@b.c'')) Applied ''t1'' True Map.empty))
     (User ''u1'' ''a@b.c'')
   \<and> consent_flag
       (fst (submit_consent (Some (User ''u1'' ''a@b.c''))
          (Refused (PgError ''42P01'' ''relation does not exist'')) ''t2'' True
          (fst (submit_consent (Some (User ''u1'' ''a@b.c'')) Applied ''t1'' True Map.empty))))
       (User ''u1'' ''a@b.c'')
   \<and> length (filter (\<lambda>e. e = OnConsentGiven)
       (snd (submit_consent (Some (User ''u1'' ''a@b.c''))
          (Refused (PgError ''42P01'' ''relation does not exist'')) ''t2'' True
          (fst (submit_consent (Some (User ''u1'' ''a@b.c'')) Applied ''t1'' True Map.empty))))) = 1"
  using C3_consent_idempotent [OF refl refl, where u = "User ''u1'' ''a@b.c''"
      and ?oc1.0 = Applied and ?now1.0 = "''t1''" and tbl = Map.empty
      and ?oc2.0 = "Refused (PgError ''42P01'' ''relation does not exist'')" and ?now2.0 = "''t2''"
      and st = initial_index]
  by simp

text \<open>
  C3 for every run, as the specification states it, fails for the profile's flag: with no
  profile row yet and both upserts refused (the table does not exist, code '42P01'), the
  callback is called on both runs and the flag is true after neither.
\<close>

theorem C3_refused_upserts_counterexample:
  "length (filter (\<lambda>e. e = OnConsentGiven)
      (snd (submit_consent (Some (User ''u1'' ''a@b.c''))
         (Refused (PgError ''42P01'' ''relation does not exist'')) ''t1'' True Map.empty))) = 1
   \<and> \<not> consent_flag
        (fst (submit_consent (Some (User ''u1'' ''a@b.c''))
           (Refused (PgError ''42P01'' ''relation does not exist'')) ''t1'' True Map.empty))
        (User ''u1'' ''a@b.c'')
   \<and> length (filter (\<lambda>e. e = OnConsentGiven)
      (snd (submit_consent (Some (User ''u1'' ''a@b.c''))
         (Refused (PgError ''42P01'' ''relation does not exist'')) ''t2'' True
         (fst (submit_consent (Some (User ''u1'' ''a@b.c''))
            (Refused (PgError ''42P01'' ''relation does not exist'')) ''t1'' True Map.empty))))) = 1
   \<and> \<not> consent_flag
        (fst (submit_consent (Some (User ''u1'' ''a@b.c''))
           (Refused (PgError ''42P01'' ''relation does not exist'')) ''t2'' True
           (fst (submit_consent (Some (User ''u1'' ''a@b.c''))
              (Refused (PgError ''42P01'' ''relation does not exist'')) ''t1'' True Map.empty))))
        (User ''u1'' ''a@b.c'')"
  by (simp add: submit_consent_def ConsentPage_handleSubmit_def consent_flag_def)

section \<open>Sign-out\<close>







section \<open>What the submission flow persists\<close>

lemma selectItemValues_eq:
  "selectItemValues = [''walking'', ''bicycle'', ''motorcycle'', ''car'', ''bus'', ''train'',
     ''metro'', ''auto rickshaw'', ''taxi'', ''other'']"
  by code_simp

lemma reachable_mode:
  "reachable_form t \<Longrightarrow> trip_form.mode t = [] \<or> trip_form.mode t \<in> set selectItemValues"
proof (induction rule: reachable_form.induct)
  case initial
  show ?case by (simp add: empty_form_def)
next
  case (typed t f v)
  then show ?case by (cases f) simp_all
next
  case (selected t v)
  then show ?case by simp
next
  case (located t coords)
  then show ?case by (simp add: onPosition_def)
next
  case (clocked t now)
  then show ?case by (simp add: autoStartTime_def)
next
  case (submitted t getUser insert_trips)
  then show ?case
    by (auto simp: TripForm_handleSubmit_def empty_form_def
        split: awaited.splits option.splits if_splits)
qed

lemma inserted_is_tripData:
  "InsertTrip d \<in> set (snd (TripForm_handleSubmit getUser insert_trips t)) \<Longrightarrow>
   trip_form.origin t \<noteq> [] \<and> trip_form.destination t \<noteq> [] \<and> trip_form.mode t \<noteq> []
   \<and> (\<exists>u. d = tripData u t)"
  by (auto simp: TripForm_handleSubmit_def split: awaited.splits option.splits if_splits)

text \<open>
  C8, as the code has it. Every row the submission flow hands to the insert, from a form
  state the user interface can produce, has a non-empty origin, destination and mode, and
  its mode is one of the ten values of the select: the lowercased entries of
  \<^verbatim>\<open>transportModes\<close>, among them "auto rickshaw", written with a space.
\<close>

theorem C8_persisted_trip:
  assumes "reachable_form t"
      and "InsertTrip d \<in> set (snd (TripForm_handleSubmit getUser insert_trips t))"
  shows "trip_data.origin d \<noteq> [] \<and> trip_data.destination d \<noteq> []
       \<and> trip_data.mode d \<in> {''walking'', ''bicycle'', ''motorcycle'', ''car'', ''bus'', ''train'',
            ''metro'', ''auto rickshaw'', ''taxi'', ''other''}"
proof -
  from inserted_is_tripData [OF assms(2)] obtain u where
    ne: "trip_form.origin t \<noteq> []" "trip_form.destination t \<noteq> []" "trip_form.mode t \<noteq> []"
    and d: "d = tripData u t" by blast
  from reachable_mode [OF assms(1)] ne(3) have "trip_form.mode t \<in> set selectItemValues" by simp
  then have "trip_form.mode t \<in> {''walking'', ''bicycle'', ''motorcycle'', ''car'', ''bus'', ''train'',
            ''metro'', ''auto rickshaw'', ''taxi'', ''other''}"
    unfolding selectItemValues_eq by simp
  with ne d show ?thesis by (simp add: tripData_def)
qed

lemma example_reachable:
  "reachable_form (handleInputChange F_mode (toLowerCase (transportModes ! 7))
     (handleInputChange F_destination ''B'' (handleInputChange F_origin ''A'' empty_form)))"
proof -
  have "toLowerCase (transportModes ! 7) \<in> set selectItemValues"
    by (simp add: selectItemValues_def transportModes_def)
  then show ?thesis
    by (intro reachable_form.selected reachable_form.typed reachable_form.initial) simp_all
qed

lemma seventh: "toLowerCase (transportModes ! 7) = ''auto rickshaw''"
  by code_simp

theorem C8_persisted_trip_witness:
  "trip_data.mode (tripData (User ''u1'' ''a@b.c'')
      (handleInputChange F_mode (toLowerCase (transportModes ! 7))
        (handleInputChange F_destination ''B'' (handleInputChange F_origin ''A'' empty_form))))
    \<in> {''walking'', ''bicycle'', ''motorcycle'', ''car'', ''bus'', ''train'',
            ''metro'', ''auto rickshaw'', ''taxi'', ''other''}"
proof -
  have ins: "InsertTrip (tripData (User ''u1'' ''a@b.c'')
      (handleInputChange F_mode (toLowerCase (transportModes ! 7))
        (handleInputChange F_destination ''B'' (handleInputChange F_origin ''A'' empty_form))))
     \<in> set (snd (TripForm_handleSubmit (Resolved (Some (User ''u1'' ''a@b.c''))) (\<lambda>d. Resolved None)
       (handleInputChange F_mode (toLowerCase (transportModes ! 7))
         (handleInputChange F_destination ''B'' (handleInputChange F_origin ''A'' empty_form)))))"
    by (simp add: seventh TripForm_handleSubmit_def empty_form_def)
  from C8_persisted_trip [OF example_reachable ins] show ?thesis by blast
qed

text \<open>
  C8 with the set as the specification lists it: choosing the eighth item of the select,
  "Auto Rickshaw", and submitting persists the mode "auto rickshaw", which is not in the
  listed set (that has "auto-rickshaw", with a hyphen).
\<close>

theorem C8_listed_modes_counterexample:
  "reachable_form (handleInputChange F_mode (toLowerCase (transportModes ! 7))
     (handleInputChange F_destination ''B'' (handleInputChange F_origin ''A'' empty_form)))
   \<and> InsertTrip (tripData (User ''u1'' ''a@b.c'')
        (handleInputChange F_mode (toLowerCase (transportModes ! 7))
          (handleInputChange F_destination ''B'' (handleInputChange F_origin ''A'' empty_form))))
     \<in> set (snd (TripForm_handleSubmit (Resolved (Some (User ''u1'' ''a@b.c''))) (\<lambda>d. Resolved None)
        (handleInputChange F_mode (toLowerCase (transportModes ! 7))
          (handleInputChange F_destination ''B'' (handleInputChange F_origin ''A'' empty_form)))))
   \<and> trip_data.mode (tripData (User ''u1'' ''a@b.c'')
        (handleInputChange F_mode (toLowerCase (transportModes ! 7))
          (handleInputChange F_destination ''B'' (handleInputChange F_origin ''A'' empty_form))))
     = ''auto rickshaw''
   \<and> trip_data.mode (tripData (User ''u1'' ''a@b.c'')
        (handleInputChange F_mode (toLowerCase (transportModes ! 7))
          (handleInputChange F_destination ''B'' (handleInputChange F_origin ''A'' empty_form))))
     \<notin> {''walking'', ''bicycle'', ''motorcycle'', ''car'', ''bus'', ''train'',
        ''metro'', ''auto-rickshaw'', ''taxi'', ''other''}"
  using example_reachable
  by (simp add: seventh TripForm_handleSubmit_def empty_form_def tripData_def)

section \<open>The research view's filter\<close>


lemma of_char_less_256: "(of_char c :: nat) < 256"
proof -
  have "(of_char c :: nat) mod 256 = of_char c" by (rule of_char_mod_256)
  then show ?thesis by (metis mod_less_divisor zero_less_numeral)
qed








section \<open>The research view's statistics\<close>




















section \<open>The CSV export read back\<close>

lemma split_on_none: "c \<notin> set x \<Longrightarrow> split_on c x = [x]"
  by (induction x) auto

lemma split_on_append: "c \<notin> set x \<Longrightarrow> split_on c (x @ c # rest) = x # split_on c rest"
  by (induction x) auto

lemma split_on_join:
  "xs \<noteq> [] \<Longrightarrow> \<forall>x\<in>set xs. c \<notin> set x \<Longrightarrow> split_on c (join [c] xs) = xs"
proof (induction "[c]" xs rule: join.induct)
  case 1
  then show ?case by simp
next
  case (2 x)
  then show ?case by (simp add: split_on_none)
next
  case (3 x y ys)
  then show ?case by (simp add: split_on_append)
qed

lemma set_join: "set (join sep xs) \<subseteq> set sep \<union> \<Union> (set ` set xs)"
  by (induction sep xs rule: join.induct) auto

lemma of_char_digit: "d < 10 \<Longrightarrow> of_char (digit d) = 48 + d"
  by (simp add: digit_def)

lemma digit_not_sep: "d < 10 \<Longrightarrow> digit d \<noteq> comma \<and> digit d \<noteq> newline"
proof -
  assume d: "d < 10"
  have "(of_char (digit d) :: nat) \<noteq> of_char comma" "(of_char (digit d) :: nat) \<noteq> of_char newline"
    using of_char_digit [OF d] by (simp_all add: comma_def newline_def)
  then show ?thesis by auto
qed

lemma show_nat_no_sep: "comma \<notin> set (show_nat n) \<and> newline \<notin> set (show_nat n)"
proof (induction n rule: show_nat.induct)
  case (1 n)
  show ?case
  proof (cases "n < 10")
    case True
    then show ?thesis using digit_not_sep [of n] by (auto simp: show_nat.simps [of n])
  next
    case False
    then show ?thesis using 1 digit_not_sep [of "n mod 10"]
      by (auto simp: show_nat.simps [of n])
  qed
qed

lemma show_int_no_sep: "comma \<notin> set (show_int i) \<and> newline \<notin> set (show_int i)"
  using show_nat_no_sep by (auto simp: show_int_def comma_def newline_def)

lemma csv_row_cells: "csv_row t = show_int (trip_id t) # text_cells t"
  by (simp add: text_cells_def csv_row_def)

lemma header_no_sep: "\<forall>cell\<in>set csv_header. comma \<notin> set cell \<and> newline \<notin> set cell"
  by (simp add: csv_header_def comma_def newline_def)

lemma comma_not_newline: "comma \<noteq> newline"
  by (simp add: comma_def newline_def)

lemma line_no_newline:
  assumes "\<forall>cell\<in>set row. newline \<notin> set cell"
  shows "newline \<notin> set (join [comma] row)"
  using set_join [of "[comma]" row] assms comma_not_newline by auto

lemma lines_of_export:
  assumes "\<forall>t\<in>set ts. \<forall>cell\<in>set (text_cells t). newline \<notin> set cell"
  shows "split_on newline (csvContent ts) = map (join [comma]) (csv_header # map csv_row ts)"
proof -
  have "\<forall>row \<in> set (csv_header # map csv_row ts). \<forall>cell\<in>set row. newline \<notin> set cell"
    using assms header_no_sep show_int_no_sep by (auto simp: csv_row_cells)
  then have "\<forall>line \<in> set (map (join [comma]) (csv_header # map csv_row ts)). newline \<notin> set line"
    using line_no_newline by auto
  then show ?thesis
    unfolding csvContent_def by (intro split_on_join) simp_all
qed

lemma cells_of_line:
  assumes "row \<noteq> []" and "\<forall>cell\<in>set row. comma \<notin> set cell"
  shows "split_on comma (join [comma] row) = row"
  using assms by (rule split_on_join)

text \<open>
  C4, as the code has it. The export writes the file \<^verbatim>\<open>natpac_trip_data.csv\<close>: the
  nine-column header line, then one line per trip of the filtered set, cells joined with
  plain commas and lines with newlines, nothing escaped. When no text cell of any trip
  (user id, trip number, origin, destination, mode, start time, end time, companions)
  contains a line break, cutting the text at the newlines gives the header line and
  exactly one line per trip, in order, so there are as many data rows as trips, and the
  first row read back is the header. When, in addition, no text cell contains a comma,
  every data row read back is the nine cells of its trip in the header's order.
\<close>

theorem C4_export_roundtrip:
  assumes "\<forall>t\<in>set ts. \<forall>cell\<in>set (text_cells t). newline \<notin> set cell"
  shows "fst (exportData ts) = ''natpac_trip_data.csv''
       \<and> split_on newline (snd (exportData ts))
           = join [comma] csv_header # map (\<lambda>t. join [comma] (csv_row t)) ts
       \<and> length (data_rows (snd (exportData ts))) = length ts
       \<and> hd (read_csv (snd (exportData ts))) = csv_header
       \<and> ((\<forall>t\<in>set ts. \<forall>cell\<in>set (text_cells t). comma \<notin> set cell)
            \<longrightarrow> data_rows (snd (exportData ts)) = map csv_row ts)"
proof -
  have name: "fst (exportData ts) = ''natpac_trip_data.csv''"
    by (simp add: exportData_def)
  have lines: "split_on newline (snd (exportData ts))
      = join [comma] csv_header # map (\<lambda>t. join [comma] (csv_row t)) ts"
    using lines_of_export [OF assms] by (simp add: exportData_def comp_def)
  have count: "length (data_rows (snd (exportData ts))) = length ts"
    by (simp add: data_rows_def read_csv_def lines)
  have "split_on comma (join [comma] csv_header) = csv_header"
    using header_no_sep by (intro cells_of_line) (simp_all add: csv_header_def)
  then have header: "hd (read_csv (snd (exportData ts))) = csv_header"
    by (simp add: read_csv_def lines)
  have rows: "data_rows (snd (exportData ts)) = map csv_row ts"
    if c: "\<forall>t\<in>set ts. \<forall>cell\<in>set (text_cells t). comma \<notin> set cell"
  proof -
    have "split_on comma (join [comma] (csv_row t)) = csv_row t" if "t \<in> set ts" for t
      using that c show_int_no_sep by (intro cells_of_line) (auto simp: csv_row_cells)
    then show ?thesis
      by (simp add: data_rows_def read_csv_def lines)
  qed
  from name lines count header rows show ?thesis by blast
qed

theorem C4_export_roundtrip_witness:
  "length (data_rows (snd (exportData scenario_trips))) = 10
   \<and> hd (read_csv (snd (exportData scenario_trips))) = csv_header
   \<and> data_rows (snd (exportData scenario_trips)) = map csv_row scenario_trips"
proof -
  have nl: "\<forall>t\<in>set scenario_trips. \<forall>cell\<in>set (text_cells t). newline \<notin> set cell"
    by code_simp
  have cm: "\<forall>t\<in>set scenario_trips. \<forall>cell\<in>set (text_cells t). comma \<notin> set cell"
    by code_simp
  have len: "length scenario_trips = 10"
    by (simp add: scenario_trips_def)
  from C4_export_roundtrip [OF nl] cm len show ?thesis by simp
qed

text \<open>
  C4 for every filtered set, as the specification states it, fails. A trip whose
  companions text (a multi-line text area in the form) holds a line break is read back as
  two data rows; a trip whose origin holds a comma (the form's own geolocation text is
  "latitude, longitude") is read back with ten cells, and the cell in the Origin column is
  not the trip's origin.
\<close>

theorem C4_unescaped_counterexample:
  "length (data_rows (snd (exportData
       [(scenario_trip 1 ''u1'' ''Home'' ''Office'' ''bus'')
          \<lparr>companions := Some [CHR ''2'', CHR 0x0A, CHR ''k'', CHR ''i'', CHR ''d'', CHR ''s'']\<rparr>])))
     \<noteq> length [(scenario_trip 1 ''u1'' ''Home'' ''Office'' ''bus'')
          \<lparr>companions := Some [CHR ''2'', CHR 0x0A, CHR ''k'', CHR ''i'', CHR ''d'', CHR ''s'']\<rparr>]
   \<and> map length (data_rows (snd (exportData
       [scenario_trip 2 ''u1'' ''8.52410, 76.93660'' ''Office'' ''bus''])))
     = [10]
   \<and> map (\<lambda>row. row ! 3) (data_rows (snd (exportData
       [scenario_trip 2 ''u1'' ''8.52410, 76.93660'' ''Office'' ''bus''])))
     \<noteq> [trip.origin (scenario_trip 2 ''u1'' ''8.52410, 76.93660'' ''Office'' ''bus'')]"
  by code_simp


end
